theory Spec2Isabelle
  imports Main
begin

section \<open>simretina/retina.py: a wrapper around cv2.bioinspired\<close>

subsection \<open>Arrays and exceptions\<close>

text \<open>
  A numpy array is its shape together with its elements in row-major (C) order, which
  is how numpy stores a freshly allocated array. The element type is left open: the
  wrapper only copies elements, it never computes with them.
\<close>

record 'a ndarray =
  shape :: "nat list"
  elems :: "'a list"

definition ndim :: "'a ndarray \<Rightarrow> nat" where
  "ndim a = length (shape a)"

text \<open>The invariant numpy keeps for every array: as many elements as the shape says.\<close>

definition wf_ndarray :: "'a ndarray \<Rightarrow> bool" where
  "wf_ndarray a = (length (elems a) = prod_list (shape a))"

text \<open>
  The exceptions that can leave the module. \<open>ValueError\<close> is raised by the module's own
  checks (and by numpy on a bad axis permutation), \<open>TypeError\<close> and \<open>NameError\<close> by the
  Python interpreter, and \<open>Cv2Error\<close> stands for whatever the wrapped library raises.
\<close>

datatype py_error = ValueError string | TypeError string | NameError string | Cv2Error string

subsection \<open>The two numpy calls of grey2color\<close>

text \<open>
  \<^verbatim>\<open>np.tile(frame, (3, 1, 1))\<close>: an array of rank below 3 gets leading axes of length 1
  until its rank is 3, and is then repeated three times along the first axis. In
  row-major order that is three copies of the elements, one after the other. (Above
  rank 3 numpy repeats a later axis; \<open>grey2color\<close> never gets there.)
\<close>

definition np_tile_3_1_1 :: "'a ndarray \<Rightarrow> 'a ndarray" where
  "np_tile_3_1_1 a =
     (let sh = replicate (3 - ndim a) 1 @ shape a
      in \<lparr>shape = (3 * hd sh) # tl sh, elems = elems a @ elems a @ elems a\<rparr>)"

text \<open>
  \<^verbatim>\<open>np.transpose(x, (1, 2, 0))\<close>: axes \<open>(c, h, w)\<close> become \<open>(h, w, c)\<close>, so that
  \<open>out[i, j, k] = x[k, i, j]\<close>. The element at row-major position \<open>n = (i * w + j) * c + k\<close>
  of the result is the one at position \<open>k * (h * w) + (i * w + j)\<close> of \<open>x\<close>. numpy raises
  ValueError when the array does not have three axes.
\<close>

definition np_transpose_1_2_0 :: "'a ndarray \<Rightarrow> py_error + 'a ndarray" where
  "np_transpose_1_2_0 a =
     (case shape a of
        [c, h, w] \<Rightarrow>
          Inr \<lparr>shape = [h, w, c],
               elems = map (\<lambda>n. elems a ! ((n mod c) * (h * w) + n div c)) [0..<h * w * c]\<rparr>
      | _ \<Rightarrow> Inl (ValueError ''axes don't match array''))"

subsection \<open>grey2color\<close>

text \<open>
  \<^verbatim>\<open>
  def grey2color(frame):
      if frame.ndim != 2:
          raise ValueError("Input frame is not a grey frame.")
      return np.transpose(np.tile(frame, (3, 1, 1)), (1, 2, 0))
  \<close>
\<close>

definition grey2color :: "'a ndarray \<Rightarrow> py_error + 'a ndarray" where
  "grey2color frame =
     (if ndim frame \<noteq> 2 then Inl (ValueError ''Input frame is not a grey frame.'')
      else np_transpose_1_2_0 (np_tile_3_1_1 frame))"

text \<open>
  Reading the result back, as a caller would with \<^verbatim>\<open>a[i, j]\<close>, \<^verbatim>\<open>a[i, j, k]\<close> and
  \<^verbatim>\<open>a[:, :, k]\<close>. They are used to state what \<open>grey2color\<close> returns.
\<close>

definition at2 :: "'a ndarray \<Rightarrow> nat \<Rightarrow> nat \<Rightarrow> 'a" where
  "at2 a i j = elems a ! (i * (shape a ! 1) + j)"

definition at3 :: "'a ndarray \<Rightarrow> nat \<Rightarrow> nat \<Rightarrow> nat \<Rightarrow> 'a" where
  "at3 a i j k = elems a ! ((i * (shape a ! 1) + j) * (shape a ! 2) + k)"

definition channel :: "nat \<Rightarrow> 'a ndarray \<Rightarrow> 'a ndarray" where
  "channel k a =
     \<lparr>shape = take 2 (shape a),
      elems = map (\<lambda>n. elems a ! (n * (shape a ! 2) + k)) [0..<shape a ! 0 * shape a ! 1]\<rparr>"

subsection \<open>The wrapped library\<close>

text \<open>
  \<^verbatim>\<open>cv2.bioinspired\<close> is not part of the repository, so it is a parameter: a constructor
  and the four methods the module calls on a retina object, over a state \<open>'s\<close> of the
  library's own. Every method may change that state and may raise; the string is the
  library's message.
\<close>

record ('s, 'a) bioinspired =
  createRetina :: "int \<times> int \<Rightarrow> string + 's"
  run :: "'s \<Rightarrow> 'a ndarray \<Rightarrow> string + (unit \<times> 's)"
  getParvo :: "'s \<Rightarrow> string + ('a ndarray \<times> 's)"
  getMagno :: "'s \<Rightarrow> string + ('a ndarray \<times> 's)"
  clearBuffers :: "'s \<Rightarrow> string + (unit \<times> 's)"

text \<open>The calls that reach the library, recorded in the order they are made.\<close>

datatype 'a call =
  CreateRetina "int \<times> int" | ClearBuffers | Run "'a ndarray" | GetParvo | GetMagno

record ('s, 'a) world =
  handle :: 's
  calls :: "'a call list"

text \<open>
  A statement of the module runs in a world (the retina object's state and the calls made
  so far) and either returns a value or raises; the world it leaves behind is kept in
  both cases, as a Python exception does not undo a mutation.
\<close>

type_synonym ('r, 's, 'a) action = "('s, 'a) world \<Rightarrow> (py_error + 'r) \<times> ('s, 'a) world"

definition return_val :: "'r \<Rightarrow> ('r, 's, 'a) action" where
  "return_val r w = (Inr r, w)"

definition raise :: "py_error \<Rightarrow> ('r, 's, 'a) action" where
  "raise e w = (Inl e, w)"

definition pure_call :: "py_error + 'r \<Rightarrow> ('r, 's, 'a) action" where
  "pure_call r w = (r, w)"

definition and_then :: "('r, 's, 'a) action \<Rightarrow> ('r \<Rightarrow> ('q, 's, 'a) action) \<Rightarrow> ('q, 's, 'a) action" where
  "and_then m f w = (case m w of (Inl e, w') \<Rightarrow> (Inl e, w') | (Inr r, w') \<Rightarrow> f r w')"

text \<open>A method call on the retina object: logged, then run on the object's state.\<close>

definition method_call :: "'a call \<Rightarrow> ('s \<Rightarrow> string + ('r \<times> 's)) \<Rightarrow> ('r, 's, 'a) action" where
  "method_call c m w =
     (case m (handle w) of
        Inl msg \<Rightarrow> (Inl (Cv2Error msg), w\<lparr>calls := calls w @ [c]\<rparr>)
      | Inr (r, s') \<Rightarrow> (Inr r, w\<lparr>handle := s', calls := calls w @ [c]\<rparr>))"

subsection \<open>init_retina and clear_buffers\<close>

text \<open>
  \<^verbatim>\<open>
  def init_retina(size):
      if len(size) != 2:
          raise ValueError("Invalid size setting.")
      return bioinspired.createRetina((size[1], size[0]))
  \<close>
  \<open>size\<close> is the tuple of the docstring, a sequence of integers. No retina object exists
  yet, so the function runs on the list of calls made so far alone.
\<close>

definition init_retina ::
  "('s, 'a) bioinspired \<Rightarrow> int list \<Rightarrow> 'a call list \<Rightarrow> (py_error + 's) \<times> 'a call list" where
  "init_retina lib size_tuple made =
     (if length size_tuple \<noteq> 2 then (Inl (ValueError ''Invalid size setting.''), made)
      else (case createRetina lib (size_tuple ! 1, size_tuple ! 0) of
              Inl msg \<Rightarrow> Inl (Cv2Error msg)
            | Inr retina \<Rightarrow> Inr retina,
            made @ [CreateRetina (size_tuple ! 1, size_tuple ! 0)]))"

text \<open>
  \<^verbatim>\<open>
  def clear_buffers(retina):
      retina.clearBuffers()
  \<close>
\<close>

definition clear_buffers :: "('s, 'a) bioinspired \<Rightarrow> (unit, 's, 'a) action" where
  "clear_buffers lib = method_call ClearBuffers (clearBuffers lib)"

subsection \<open>get_opl_frame\<close>

text \<open>What the function hands back: one frame, a tuple of two frames, or \<^verbatim>\<open>None\<close>.\<close>

datatype 'a opl_frame = OneFrame "'a ndarray" | FramePair "'a ndarray" "'a ndarray" | NoFrame

text \<open>
  \<^verbatim>\<open>
  def get_opl_frame(retina, frame, get_parvo=True, get_magno=True, color_mode="color"):
      retina.run(frame)
      parvo_frame = retina.getParvo()
      magno_frame = retina.getMagno()
      if color_mode == "grey":
          parvo_frame = grey2color(parvo_frame)
      magno_frame = grey2color(magno_frame)
      if get_parvo is False and get_magno is True:
          return magno_frame
      elif get_parvo is True and get_magno is False:
          return parvo_frame
      elif get_parvo is True and get_magno is True:
          return parvo_frame, magno_frame
  \<close>
  The two flags are the \<^verbatim>\<open>bool\<close>s of the docstring, on which \<^verbatim>\<open>is True\<close> and
  \<^verbatim>\<open>is False\<close> are the plain tests. Falling off the end of the chain returns \<^verbatim>\<open>None\<close>.
\<close>

definition get_opl_frame ::
  "('s, 'a) bioinspired \<Rightarrow> 'a ndarray \<Rightarrow> bool \<Rightarrow> bool \<Rightarrow> string \<Rightarrow> ('a opl_frame, 's, 'a) action" where
  "get_opl_frame lib frame get_parvo get_magno color_mode =
     and_then (method_call (Run frame) (\<lambda>s. run lib s frame)) (\<lambda>_.
     and_then (method_call GetParvo (getParvo lib)) (\<lambda>parvo_frame.
     and_then (method_call GetMagno (getMagno lib)) (\<lambda>magno_frame.
     and_then (if color_mode = ''grey'' then pure_call (grey2color parvo_frame)
               else return_val parvo_frame) (\<lambda>parvo_frame.
     and_then (pure_call (grey2color magno_frame)) (\<lambda>magno_frame.
       if \<not> get_parvo \<and> get_magno then return_val (OneFrame magno_frame)
       else if get_parvo \<and> \<not> get_magno then return_val (OneFrame parvo_frame)
       else if get_parvo \<and> get_magno then return_val (FramePair parvo_frame magno_frame)
       else return_val NoFrame)))))"

subsection \<open>get_opl_frames\<close>

text \<open>
  The function tests its \<open>frames\<close> argument with \<^verbatim>\<open>len\<close> and \<^verbatim>\<open>isinstance\<close>, so the
  argument is any Python object: a list of frames, another object that has a length
  (a tuple, an array of frames), or an object that has none (\<^verbatim>\<open>None\<close>, a generator,
  a number), on which \<^verbatim>\<open>len\<close> raises TypeError.
\<close>

datatype 'a frames_arg = ListArg "'a ndarray list" | SizedArg nat | UnsizedArg

definition py_len :: "'a frames_arg \<Rightarrow> py_error + nat" where
  "py_len frames =
     (case frames of
        ListArg fs \<Rightarrow> Inr (length fs)
      | SizedArg n \<Rightarrow> Inr n
      | UnsizedArg \<Rightarrow> Inl (TypeError ''object has no len()''))"

definition isinstance_list :: "'a frames_arg \<Rightarrow> bool" where
  "isinstance_list frames = (case frames of ListArg _ \<Rightarrow> True | _ \<Rightarrow> False)"

definition list_items :: "'a frames_arg \<Rightarrow> 'a ndarray list" where
  "list_items frames = (case frames of ListArg fs \<Rightarrow> fs | _ \<Rightarrow> [])"

text \<open>What the function hands back: one list, a tuple of two lists, or \<^verbatim>\<open>None\<close>.\<close>

datatype 'a opl_frames =
  OneList "'a ndarray list" | ListPair "'a ndarray list" "'a ndarray list" | NoList

text \<open>
  The body of the loop after the call of \<open>get_opl_frame\<close>:
  \<^verbatim>\<open>
        if get_parvo is True and get_magno is True:
            parvo_frames.append(out_frames[0])
            magno_frames.append(out_frames[1])
        elif get_parvo is True and get_magno is False:
            parvo_frames.append(out_frames)
        elif get_parvo is False and get_magno is True:
            magno_frames.append(out_frames)
  \<close>
  The local variables \<open>parvo_frames\<close> and \<open>magno_frames\<close> are bound only under their flag,
  so each is an optional list, \<open>None\<close> while unbound. Reading an unbound variable raises
  NameError and subscripting \<^verbatim>\<open>None\<close> raises TypeError; a single frame, which numpy
  would subscript, is never at hand where a tuple is subscripted, and that case is
  mapped to TypeError as well. None of these branches is ever taken (lemma
  \<open>get_opl_frames_error\<close> below).
\<close>

definition append_out ::
  "bool \<Rightarrow> bool \<Rightarrow> 'a opl_frame \<Rightarrow> 'a ndarray list option \<times> 'a ndarray list option \<Rightarrow>
     py_error + ('a ndarray list option \<times> 'a ndarray list option)" where
  "append_out get_parvo get_magno out_frames vars =
     (case vars of (parvo_frames, magno_frames) \<Rightarrow>
        if get_parvo \<and> get_magno then
          (case (parvo_frames, magno_frames, out_frames) of
             (Some ps, Some ms, FramePair p m) \<Rightarrow> Inr (Some (ps @ [p]), Some (ms @ [m]))
           | (None, _, _) \<Rightarrow> Inl (NameError ''parvo_frames'')
           | (_, None, _) \<Rightarrow> Inl (NameError ''magno_frames'')
           | _ \<Rightarrow> Inl (TypeError ''out_frames[0]''))
        else if get_parvo \<and> \<not> get_magno then
          (case (parvo_frames, out_frames) of
             (Some ps, OneFrame p) \<Rightarrow> Inr (Some (ps @ [p]), magno_frames)
           | (None, _) \<Rightarrow> Inl (NameError ''parvo_frames'')
           | _ \<Rightarrow> Inl (TypeError ''append''))
        else if \<not> get_parvo \<and> get_magno then
          (case (magno_frames, out_frames) of
             (Some ms, OneFrame m) \<Rightarrow> Inr (parvo_frames, Some (ms @ [m]))
           | (None, _) \<Rightarrow> Inl (NameError ''magno_frames'')
           | _ \<Rightarrow> Inl (TypeError ''append''))
        else Inr (parvo_frames, magno_frames))"

text \<open>
  \<^verbatim>\<open>
    for frame in frames:
        out_frames = get_opl_frame(retina, frame, get_parvo=get_parvo,
                                   get_magno=get_magno, color_mode=color_mode)
        ...
  \<close>
\<close>

fun frames_loop ::
  "('s, 'a) bioinspired \<Rightarrow> bool \<Rightarrow> bool \<Rightarrow> string \<Rightarrow> 'a ndarray list \<Rightarrow>
     'a ndarray list option \<times> 'a ndarray list option \<Rightarrow>
     ('a ndarray list option \<times> 'a ndarray list option, 's, 'a) action" where
  "frames_loop lib get_parvo get_magno color_mode [] vars = return_val vars"
| "frames_loop lib get_parvo get_magno color_mode (frame # rest) vars =
     and_then (get_opl_frame lib frame get_parvo get_magno color_mode) (\<lambda>out_frames.
     and_then (pure_call (append_out get_parvo get_magno out_frames vars)) (\<lambda>vars'.
       frames_loop lib get_parvo get_magno color_mode rest vars'))"

text \<open>
  \<^verbatim>\<open>
  def get_opl_frames(retina, frames, get_parvo=True, get_magno=True,
                     reopen_eye=True, color_mode="color"):
      if len(frames) == 0 or not isinstance(frames, list):
          raise ValueError("No video frame is entered")
      if reopen_eye is True:
          clear_buffers(retina)
      if get_parvo is True:
          parvo_frames = []
      if get_magno is True:
          magno_frames = []
      for frame in frames:
          ...
      if get_parvo is True and get_magno is True:
          return parvo_frames, magno_frames
      elif get_parvo is True and get_magno is False:
          return parvo_frames
      elif get_parvo is False and get_magno is True:
          return magno_frames
  \<close>
  \<^verbatim>\<open>len(frames)\<close> is evaluated first, then \<^verbatim>\<open>isinstance\<close> if the length is not 0.
\<close>

definition return_lists ::
  "bool \<Rightarrow> bool \<Rightarrow> 'a ndarray list option \<times> 'a ndarray list option \<Rightarrow> py_error + 'a opl_frames" where
  "return_lists get_parvo get_magno vars =
     (case vars of (parvo_frames, magno_frames) \<Rightarrow>
        if get_parvo \<and> get_magno then
          (case (parvo_frames, magno_frames) of
             (Some ps, Some ms) \<Rightarrow> Inr (ListPair ps ms)
           | (None, _) \<Rightarrow> Inl (NameError ''parvo_frames'')
           | (_, None) \<Rightarrow> Inl (NameError ''magno_frames''))
        else if get_parvo \<and> \<not> get_magno then
          (case parvo_frames of
             Some ps \<Rightarrow> Inr (OneList ps) | None \<Rightarrow> Inl (NameError ''parvo_frames''))
        else if \<not> get_parvo \<and> get_magno then
          (case magno_frames of
             Some ms \<Rightarrow> Inr (OneList ms) | None \<Rightarrow> Inl (NameError ''magno_frames''))
        else Inr NoList)"

definition get_opl_frames ::
  "('s, 'a) bioinspired \<Rightarrow> 'a frames_arg \<Rightarrow> bool \<Rightarrow> bool \<Rightarrow> bool \<Rightarrow> string \<Rightarrow>
     ('a opl_frames, 's, 'a) action" where
  "get_opl_frames lib frames get_parvo get_magno reopen_eye color_mode =
     and_then (pure_call (py_len frames)) (\<lambda>n.
       if n = 0 \<or> \<not> isinstance_list frames then raise (ValueError ''No video frame is entered'')
       else
         and_then (if reopen_eye then clear_buffers lib else return_val ()) (\<lambda>_.
         and_then (frames_loop lib get_parvo get_magno color_mode (list_items frames)
                     (if get_parvo then Some [] else None,
                      if get_magno then Some [] else None)) (\<lambda>vars.
           pure_call (return_lists get_parvo get_magno vars))))"

subsection \<open>The sequence operation in the specification's words\<close>

text \<open>
  The specification describes the sequence operation as: the frames are processed in
  input order, one at a time by the per-frame operation, each on the state the one before
  left behind, and the per-frame results are collected in that order. \<open>process_in_order\<close>
  is that description, with both outputs asked for; \<open>get_opl_frames\<close> is compared with it
  below.
\<close>

fun process_in_order ::
  "('s, 'a) bioinspired \<Rightarrow> string \<Rightarrow> 'a ndarray list \<Rightarrow> (('a ndarray \<times> 'a ndarray) list, 's, 'a) action" where
  "process_in_order lib color_mode [] = return_val []"
| "process_in_order lib color_mode (frame # rest) =
     and_then (get_opl_frame lib frame True True color_mode) (\<lambda>out.
       case out of
         FramePair p m \<Rightarrow>
           and_then (process_in_order lib color_mode rest) (\<lambda>outs. return_val ((p, m) # outs))
       | _ \<Rightarrow> raise (TypeError ''not a pair''))"

subsection \<open>Auxiliary definitions for the proofs\<close>

text \<open>
  The part of \<open>get_opl_frame\<close> before the flags are looked at, and the choice the flags
  make; lemma \<open>get_opl_frame_fetch\<close> shows that the function is the one after the other.
\<close>

definition select_out :: "bool \<Rightarrow> bool \<Rightarrow> 'a ndarray \<Rightarrow> 'a ndarray \<Rightarrow> 'a opl_frame" where
  "select_out get_parvo get_magno p m =
     (if get_parvo then (if get_magno then FramePair p m else OneFrame p)
      else (if get_magno then OneFrame m else NoFrame))"

definition fetch_frames ::
  "('s, 'a) bioinspired \<Rightarrow> 'a ndarray \<Rightarrow> string \<Rightarrow> ('a ndarray \<times> 'a ndarray, 's, 'a) action" where
  "fetch_frames lib frame color_mode =
     and_then (method_call (Run frame) (\<lambda>s. run lib s frame)) (\<lambda>_.
     and_then (method_call GetParvo (getParvo lib)) (\<lambda>p.
     and_then (method_call GetMagno (getMagno lib)) (\<lambda>m.
     and_then (if color_mode = ''grey'' then pure_call (grey2color p) else return_val p) (\<lambda>p'.
     and_then (pure_call (grey2color m)) (\<lambda>m'. return_val (p', m'))))))"

subsection \<open>A stand-in for the library\<close>

text \<open>
  A small retina to run the module on: its state is the last frame it was fed (a blank
  frame after construction and after \<open>clearBuffers\<close>). Like the library it rejects a frame
  of another height or width, hands back a parvo output of the rank of its input and a
  magno output of rank 2.
\<close>

definition blank :: "nat \<Rightarrow> nat \<Rightarrow> int ndarray" where
  "blank h w = \<lparr>shape = [h, w], elems = replicate (h * w) 0\<rparr>"

definition toy_retina :: "(int ndarray, int) bioinspired" where
  "toy_retina =
     \<lparr>createRetina = (\<lambda>(w, h). if w \<le> 0 \<or> h \<le> 0 then Inl ''empty retina''
                                else Inr (blank (nat h) (nat w))),
      run = (\<lambda>s frame. if take 2 (shape frame) = take 2 (shape s) then Inr ((), frame)
                        else Inl ''wrong frame size''),
      getParvo = (\<lambda>s. Inr (s, s)),
      getMagno = (\<lambda>s. Inr (if ndim s = 3 then channel 0 s else s, s)),
      clearBuffers = (\<lambda>s. Inr ((), blank (shape s ! 0) (shape s ! 1)))\<rparr>"

text \<open>Two grey 2 by 2 frames, their 3-channel copies, and a retina that has seen nothing.\<close>

definition frame_a :: "int ndarray" where
  "frame_a = \<lparr>shape = [2, 2], elems = [7, 9, 5, 3]\<rparr>"

definition frame_b :: "int ndarray" where
  "frame_b = \<lparr>shape = [2, 2], elems = [1, 2, 3, 4]\<rparr>"

definition color_a :: "int ndarray" where
  "color_a = \<lparr>shape = [2, 2, 3], elems = [7, 7, 7, 9, 9, 9, 5, 5, 5, 3, 3, 3]\<rparr>"

definition color_b :: "int ndarray" where
  "color_b = \<lparr>shape = [2, 2, 3], elems = [1, 1, 1, 2, 2, 2, 3, 3, 3, 4, 4, 4]\<rparr>"

definition closed_eye :: "(int ndarray, int) world" where
  "closed_eye = \<lparr>handle = blank 2 2, calls = []\<rparr>"

section \<open>Properties\<close>

subsection \<open>Facts about grey2color\<close>

lemma tile_shape: "shape g = [h, w] \<Longrightarrow> shape (np_tile_3_1_1 g) = [3, h, w]"
  by (simp add: np_tile_3_1_1_def ndim_def)

lemma tile_elems: "elems (np_tile_3_1_1 g) = elems g @ elems g @ elems g"
  by (simp add: np_tile_3_1_1_def Let_def)

lemma ndim_2_shape: "ndim g = 2 \<Longrightarrow> \<exists>h w. shape g = [h, w]"
  unfolding ndim_def
  by (cases "shape g"; cases "tl (shape g)"; cases "tl (tl (shape g))") auto

lemma grey2color_2d:
  assumes "shape g = [h, w]"
  shows "grey2color g =
     Inr \<lparr>shape = [h, w, 3],
          elems = map (\<lambda>n. (elems g @ elems g @ elems g) ! ((n mod 3) * (h * w) + n div 3))
                      [0..<h * w * 3]\<rparr>"
  using assms
  by (simp add: grey2color_def np_transpose_1_2_0_def tile_shape tile_elems ndim_def)

lemma triple_nth:
  assumes "length xs = m" "k < 3" "n < m"
  shows "(xs @ xs @ xs) ! (k * m + n) = xs ! n"
proof -
  consider "k = 0" | "k = 1" | "k = 2" using assms(2) by linarith
  then show ?thesis using assms(1,3) by cases (simp_all add: nth_append)
qed

lemma channel_index:
  "k < 3 \<Longrightarrow> ((n * 3 + k) mod 3) * m + (n * 3 + k) div 3 = k * m + (n::nat)"
  by simp

lemma position_bound:
  assumes "i < h" "j < w" "k < (3::nat)"
  shows "(i * w + j) * 3 + k < h * w * 3" and "i * w + j < h * w"
proof -
  have "i * w + j < (i + 1) * w" using assms(2) by simp
  also have "\<dots> \<le> h * w" using assms(1) by (intro mult_le_mono1) simp
  finally show ij: "i * w + j < h * w" .
  then have "(i * w + j) * 3 + k < (i * w + j + 1) * 3" using assms(3) by simp
  also have "\<dots> \<le> h * w * 3" using ij by (intro mult_le_mono1) simp
  finally show "(i * w + j) * 3 + k < h * w * 3" .
qed

subsection \<open>Sequencing\<close>

lemma and_then_assoc: "and_then (and_then m f) g = and_then m (\<lambda>x. and_then (f x) g)"
  by (rule ext) (simp add: and_then_def split: prod.splits sum.splits)

lemma and_then_return: "and_then (return_val x) f = f x"
  by (rule ext) (simp add: and_then_def return_val_def)

lemma and_then_raise: "and_then (raise e) f = raise e"
  by (rule ext) (simp add: and_then_def raise_def)

lemma and_then_pure:
  "and_then (pure_call r) f = (case r of Inl e \<Rightarrow> raise e | Inr x \<Rightarrow> f x)"
  by (rule ext) (simp add: and_then_def pure_call_def raise_def split: sum.splits)

lemma and_then_Inl: "m w = (Inl e, w') \<Longrightarrow> and_then m f w = (Inl e, w')"
  by (simp add: and_then_def)

lemma and_then_Inr: "m w = (Inr x, w') \<Longrightarrow> and_then m f w = f x w'"
  by (simp add: and_then_def)

lemma get_opl_frame_fetch:
  "get_opl_frame lib frame gp gm cm w =
     and_then (fetch_frames lib frame cm) (\<lambda>(p, m). return_val (select_out gp gm p m)) w"
  unfolding get_opl_frame_def fetch_frames_def select_out_def
  by (simp add: and_then_def return_val_def pure_call_def split: prod.splits sum.splits)


lemma fetch_frames_cases:
  obtains (raises) e w1 where "fetch_frames lib frame cm w = (Inl e, w1)"
  | (returns) p m w1 where "fetch_frames lib frame cm w = (Inr (p, m), w1)"
  by (cases "fetch_frames lib frame cm w"; cases "fst (fetch_frames lib frame cm w)") auto

lemma get_opl_frame_raises:
  "fetch_frames lib frame cm w = (Inl e, w1) \<Longrightarrow> get_opl_frame lib frame gp gm cm w = (Inl e, w1)"
  by (simp add: get_opl_frame_fetch and_then_def)

lemma get_opl_frame_returns:
  "fetch_frames lib frame cm w = (Inr (p, m), w1) \<Longrightarrow>
     get_opl_frame lib frame gp gm cm w = (Inr (select_out gp gm p m), w1)"
  by (simp add: get_opl_frame_fetch and_then_def return_val_def)

lemma then_raises:
  "fetch_frames lib frame cm w = (Inl e, w1) \<Longrightarrow>
     and_then (get_opl_frame lib frame gp gm cm) k w = (Inl e, w1)"
  by (simp add: and_then_def get_opl_frame_raises)

lemma then_returns:
  "fetch_frames lib frame cm w = (Inr (p, m), w1) \<Longrightarrow>
     and_then (get_opl_frame lib frame gp gm cm) k w = k (select_out gp gm p m) w1"
  by (simp add: and_then_def get_opl_frame_returns)

lemma append_out_select:
  "append_out gp gm (select_out gp gm p m)
       (if gp then Some ps else None, if gm then Some ms else None) =
     Inr (if gp then Some (ps @ [p]) else None, if gm then Some (ms @ [m]) else None)"
  by (simp add: append_out_def select_out_def)

lemma frames_loop_process:
  "frames_loop lib gp gm cm fs (if gp then Some ps else None, if gm then Some ms else None) w =
     (case process_in_order lib cm fs w of
        (Inl e, w') \<Rightarrow> (Inl e, w')
      | (Inr outs, w') \<Rightarrow>
          (Inr (if gp then Some (ps @ map fst outs) else None,
                if gm then Some (ms @ map snd outs) else None), w'))"
proof (induction fs arbitrary: ps ms w)
  case Nil
  show ?case by (simp add: return_val_def)
next
  case (Cons f fs)
  show ?case
  proof (cases rule: fetch_frames_cases[of lib f cm w])
    case (raises e w1)
    then show ?thesis
      by (simp add: then_raises)
  next
    case (returns p m w1)
    have step: "frames_loop lib gp gm cm (f # fs)
                  (if gp then Some ps else None, if gm then Some ms else None) w =
                frames_loop lib gp gm cm fs
                  (if gp then Some (ps @ [p]) else None, if gm then Some (ms @ [m]) else None) w1"
      by (simp only: frames_loop.simps then_returns[OF returns]
            append_out_select and_then_pure sum.case)
    have spec: "process_in_order lib cm (f # fs) w =
                and_then (process_in_order lib cm fs) (\<lambda>outs. return_val ((p, m) # outs)) w1"
      by (simp only: process_in_order.simps then_returns[OF returns]
            select_out_def if_True opl_frame.case)
    show ?thesis
      unfolding step spec Cons.IH
      by (simp add: and_then_def return_val_def split: prod.splits sum.splits)
  qed
qed

lemma process_in_order_length:
  "process_in_order lib cm fs w = (Inr outs, w') \<Longrightarrow> length outs = length fs"
proof (induction fs arbitrary: outs w)
  case Nil
  then show ?case by (simp add: return_val_def)
next
  case (Cons f fs)
  show ?case
  proof (cases rule: fetch_frames_cases[of lib f cm w])
    case (raises e w1)
    with Cons.prems show ?thesis
      by (simp add: then_raises)
  next
    case (returns p m w1)
    have spec: "process_in_order lib cm (f # fs) w =
                and_then (process_in_order lib cm fs) (\<lambda>outs. return_val ((p, m) # outs)) w1"
      by (simp only: process_in_order.simps then_returns[OF returns]
            select_out_def if_True opl_frame.case)
    from Cons.prems obtain rest where "process_in_order lib cm fs w1 = (Inr rest, w')"
        and "outs = (p, m) # rest"
      unfolding spec by (auto simp add: and_then_def return_val_def split: prod.splits sum.splits)
    with Cons.IH show ?thesis by auto
  qed
qed


lemma fetch_frames_eval:
  assumes "run lib (handle w) frame = Inr ((), s1)"
    and "getParvo lib s1 = Inr (p, s2)"
    and "getMagno lib s2 = Inr (m, s3)"
  shows "fetch_frames lib frame cm w =
     (case (if cm = ''grey'' then grey2color p else Inr p) of
        Inl e \<Rightarrow> Inl e
      | Inr p' \<Rightarrow> (case grey2color m of Inl e \<Rightarrow> Inl e | Inr m' \<Rightarrow> Inr (p', m')),
      w\<lparr>handle := s3, calls := calls w @ [Run frame, GetParvo, GetMagno]\<rparr>)"
  using assms
  by (simp add: fetch_frames_def and_then_def method_call_def pure_call_def return_val_def
        split: sum.splits)

lemma fetch_frames_calls:
  "\<exists>new. calls (snd (fetch_frames lib frame cm w)) = calls w @ Run frame # new \<and>
         set new \<subseteq> {GetParvo, GetMagno}"
  by (simp add: fetch_frames_def and_then_def method_call_def pure_call_def return_val_def
        split: sum.splits prod.splits)

lemma fetch_frames_calls_ok:
  "fetch_frames lib frame cm w = (Inr r, w1) \<Longrightarrow>
     calls w1 = calls w @ [Run frame, GetParvo, GetMagno]"
  by (auto simp add: fetch_frames_def and_then_def method_call_def pure_call_def return_val_def
        split: sum.splits prod.splits if_splits)

lemma process_step_raises:
  "fetch_frames lib f cm w = (Inl e, w1) \<Longrightarrow> process_in_order lib cm (f # fs) w = (Inl e, w1)"
  by (simp add: then_raises)

lemma process_step_returns:
  "fetch_frames lib f cm w = (Inr (p, m), w1) \<Longrightarrow>
     process_in_order lib cm (f # fs) w =
       and_then (process_in_order lib cm fs) (\<lambda>outs. return_val ((p, m) # outs)) w1"
  by (simp only: process_in_order.simps then_returns select_out_def if_True opl_frame.case)

lemma and_then_return_snd: "snd (and_then m (\<lambda>x. return_val (f x)) w) = snd (m w)"
  by (simp add: and_then_def return_val_def split: prod.splits sum.splits)

lemma process_calls:
  "\<exists>new. calls (snd (process_in_order lib cm fs w)) = calls w @ new \<and> ClearBuffers \<notin> set new \<and>
         (fs \<noteq> [] \<longrightarrow> (\<exists>new'. new = Run (hd fs) # new'))"
proof (induction fs arbitrary: w)
  case Nil
  show ?case by (simp add: return_val_def)
next
  case (Cons f fs)
  obtain new1 where new1: "calls (snd (fetch_frames lib f cm w)) = calls w @ Run f # new1"
      "set new1 \<subseteq> {GetParvo, GetMagno}"
    using fetch_frames_calls by blast
  show ?case
  proof (cases rule: fetch_frames_cases[of lib f cm w])
    case (raises e w1)
    with new1 show ?thesis
      unfolding process_step_raises[OF raises] by auto
  next
    case (returns p m w1)
    obtain new2 where new2: "calls (snd (process_in_order lib cm fs w1)) = calls w1 @ new2"
        "ClearBuffers \<notin> set new2"
      using Cons.IH by blast
    from returns new1 have "calls w1 = calls w @ Run f # new1" by simp
    with new1(2) new2 show ?thesis
      unfolding process_step_returns[OF returns] and_then_return_snd by auto
  qed
qed

lemma process_calls_ok:
  "process_in_order lib cm fs w = (Inr outs, w') \<Longrightarrow>
     calls w' = calls w @ concat (map (\<lambda>f. [Run f, GetParvo, GetMagno]) fs)"
proof (induction fs arbitrary: outs w)
  case Nil
  then show ?case by (simp add: return_val_def)
next
  case (Cons f fs)
  show ?case
  proof (cases rule: fetch_frames_cases[of lib f cm w])
    case (raises e w1)
    with Cons.prems show ?thesis unfolding process_step_raises[OF raises] by simp
  next
    case (returns p m w1)
    from Cons.prems obtain rest where "process_in_order lib cm fs w1 = (Inr rest, w')"
      unfolding process_step_returns[OF returns]
      by (auto simp add: and_then_def return_val_def split: prod.splits sum.splits)
    with Cons.IH have "calls w' = calls w1 @ concat (map (\<lambda>f. [Run f, GetParvo, GetMagno]) fs)"
      by blast
    with fetch_frames_calls_ok[OF returns] show ?thesis by simp
  qed
qed




lemma get_opl_frames_unfold:
  assumes "fs \<noteq> []"
  shows "get_opl_frames lib (ListArg fs) gp gm reopen cm =
     and_then (if reopen then clear_buffers lib else return_val ()) (\<lambda>_.
     and_then (frames_loop lib gp gm cm fs
                 (if gp then Some [] else None, if gm then Some [] else None))
              (\<lambda>vars. pure_call (return_lists gp gm vars)))"
proof -
  have "py_len (ListArg fs) = Inr (length fs)" "isinstance_list (ListArg fs)"
       "list_items (ListArg fs) = fs"
    by (simp_all add: py_len_def isinstance_list_def list_items_def)
  with assms show ?thesis
    unfolding get_opl_frames_def by (simp add: and_then_pure)
qed


lemma loop_then_return:
  "and_then (frames_loop lib gp gm cm fs
                 (if gp then Some [] else None, if gm then Some [] else None))
              (\<lambda>vars. pure_call (return_lists gp gm vars)) w0 =
     and_then (process_in_order lib cm fs) (\<lambda>outs. return_val
       (if gp then (if gm then ListPair (map fst outs) (map snd outs) else OneList (map fst outs))
        else (if gm then OneList (map snd outs) else NoList))) w0"
proof (cases "process_in_order lib cm fs w0")
  case (Pair r w1)
  note loop = frames_loop_process[of lib gp gm cm fs "[]" "[]" w0, unfolded Pair]
  show ?thesis
  proof (cases r)
    case (Inl e)
    with loop Pair show ?thesis
      by (simp add: and_then_def)
  next
    case (Inr outs)
    with loop Pair show ?thesis
      by (simp add: and_then_def return_lists_def pure_call_def return_val_def)
  qed
qed


lemma and_then_cong_right: "(\<And>x w'. f x w' = g x w') \<Longrightarrow> and_then m f w = and_then m g w"
  by (simp add: and_then_def split: prod.splits sum.splits)

lemma get_opl_frames_list:
  assumes "fs \<noteq> []"
  shows "get_opl_frames lib (ListArg fs) gp gm reopen cm w =
     and_then (if reopen then clear_buffers lib else return_val ()) (\<lambda>_.
     and_then (process_in_order lib cm fs) (\<lambda>outs. return_val
       (if gp then (if gm then ListPair (map fst outs) (map snd outs) else OneList (map fst outs))
        else (if gm then OneList (map snd outs) else NoList)))) w"
  unfolding get_opl_frames_unfold[OF assms]
  by (rule and_then_cong_right) (rule loop_then_return)


subsection \<open>One frame\<close>

lemma get_opl_frame_eval:
  assumes "run lib (handle w) frame = Inr ((), s1)"
    and "getParvo lib s1 = Inr (p, s2)"
    and "getMagno lib s2 = Inr (m, s3)"
  shows "get_opl_frame lib frame gp gm cm w =
     (case (if cm = ''grey'' then grey2color p else Inr p) of
        Inl e \<Rightarrow> Inl e
      | Inr p' \<Rightarrow> (case grey2color m of
                    Inl e \<Rightarrow> Inl e
                  | Inr m' \<Rightarrow> Inr (select_out gp gm p' m')),
      w\<lparr>handle := s3, calls := calls w @ [Run frame, GetParvo, GetMagno]\<rparr>)"
  unfolding get_opl_frame_fetch
  by (simp add: and_then_def fetch_frames_eval[OF assms] return_val_def split: sum.splits)

lemma grey2color_shape:
  assumes "grey2color m = Inr m'"
  shows "shape m' = shape m @ [3]"
proof -
  from assms have "ndim m = 2" by (auto simp add: grey2color_def split: if_splits)
  then obtain h w where hw: "shape m = [h, w]" using ndim_2_shape by blast
  with assms show ?thesis by (auto simp add: grey2color_2d)
qed

subsection \<open>Clearing the buffers and rejecting the argument\<close>

lemma clear_buffers_eval:
  "clear_buffers lib w =
     (case clearBuffers lib (handle w) of
        Inl msg \<Rightarrow> (Inl (Cv2Error msg), w\<lparr>calls := calls w @ [ClearBuffers]\<rparr>)
      | Inr (u, s') \<Rightarrow> (Inr (), w\<lparr>handle := s', calls := calls w @ [ClearBuffers]\<rparr>))"
  by (simp add: clear_buffers_def method_call_def split: sum.splits)

lemma and_then_return_fst:
  "fst (and_then m (\<lambda>x. return_val (f x)) w) = Inr r \<longleftrightarrow> (\<exists>x. fst (m w) = Inr x \<and> r = f x)"
  by (cases "m w"; cases "fst (m w)") (auto simp add: and_then_def return_val_def)

lemma and_then_return_eq:
  "and_then m (\<lambda>x. return_val (f x)) w = (Inr r, w') \<longleftrightarrow> (\<exists>x. m w = (Inr x, w') \<and> r = f x)"
  by (cases "m w"; cases "fst (m w)") (auto simp add: and_then_def return_val_def)

lemma get_opl_frames_rejects:
  "get_opl_frames lib (ListArg []) gp gm reopen cm w =
     (Inl (ValueError ''No video frame is entered''), w)"
  "get_opl_frames lib (SizedArg n) gp gm reopen cm w =
     (Inl (ValueError ''No video frame is entered''), w)"
  by (simp_all add: get_opl_frames_def py_len_def isinstance_list_def and_then_pure raise_def)

subsection \<open>Which exceptions a list of frames can meet\<close>

text \<open>
  On a list of frames the only exceptions are the library's and the module's own
  ValueErrors: the branches of \<open>append_out\<close>, \<open>return_lists\<close> and \<open>process_in_order\<close> that
  stand for an unbound variable or a result of the wrong kind are never taken.
\<close>

lemma grey2color_error:
  assumes "grey2color a = Inl e"
  shows "e = ValueError ''Input frame is not a grey frame.''"
proof (cases "ndim a = 2")
  case True
  then obtain h w where "shape a = [h, w]" using ndim_2_shape by blast
  with assms show ?thesis by (simp add: grey2color_2d)
next
  case False
  with assms show ?thesis by (simp add: grey2color_def)
qed

lemma fetch_frames_error:
  assumes "fetch_frames lib frame cm w = (Inl e, w1)"
  shows "(\<exists>msg. e = Cv2Error msg) \<or> (\<exists>msg. e = ValueError msg)"
  using assms
  by (auto simp add: fetch_frames_def and_then_def method_call_def pure_call_def return_val_def
        split: sum.splits prod.splits if_splits dest: grey2color_error)

lemma process_in_order_error:
  "process_in_order lib cm fs w = (Inl e, w') \<Longrightarrow>
     (\<exists>msg. e = Cv2Error msg) \<or> (\<exists>msg. e = ValueError msg)"
proof (induction fs arbitrary: w)
  case Nil
  then show ?case by (simp add: return_val_def)
next
  case (Cons f fs)
  show ?case
  proof (cases rule: fetch_frames_cases[of lib f cm w])
    case (raises e1 w1)
    with Cons.prems have "e = e1" unfolding process_step_raises[OF raises] by simp
    with fetch_frames_error[OF raises] show ?thesis by simp
  next
    case (returns p m w1)
    from Cons.prems have "process_in_order lib cm fs w1 = (Inl e, w')"
      unfolding process_step_returns[OF returns]
      by (auto simp add: and_then_def return_val_def split: prod.splits sum.splits)
    with Cons.IH show ?thesis by blast
  qed
qed

lemma get_opl_frames_error:
  assumes "get_opl_frames lib (ListArg fs) gp gm reopen cm w = (Inl e, w')"
  shows "(\<exists>msg. e = Cv2Error msg) \<or> (\<exists>msg. e = ValueError msg)"
proof (cases "fs = []")
  case True
  with assms show ?thesis by (auto simp add: get_opl_frames_rejects)
next
  case False
  show ?thesis
  proof (cases "(if reopen then clear_buffers lib else return_val ()) w")
    case (Pair c w0)
    show ?thesis
    proof (cases c)
      case (Inl e0)
      with Pair assms have "e = e0"
        unfolding get_opl_frames_list[OF False] by (simp add: and_then_def)
      moreover from Pair Inl have "\<exists>msg. e0 = Cv2Error msg"
        by (auto simp add: clear_buffers_eval return_val_def split: if_splits sum.splits prod.splits)
      ultimately show ?thesis by simp
    next
      case (Inr u)
      with Pair assms have "process_in_order lib cm fs w0 = (Inl e, w')"
        unfolding get_opl_frames_list[OF False]
        by (auto simp add: and_then_def return_val_def split: prod.splits sum.splits)
      then show ?thesis by (rule process_in_order_error)
    qed
  qed
qed

subsection \<open>The stand-in retina on the sample frames\<close>

lemma closed_eye_fields: "handle closed_eye = blank 2 2" "calls closed_eye = []"
  by (simp_all add: closed_eye_def)

lemma sample_frames:
  "grey2color frame_a = Inr color_a" "grey2color frame_b = Inr color_b"
  "shape frame_a = [2, 2]" "shape frame_b = [2, 2]" "ndim frame_a = 2" "ndim frame_b = 2"
  by code_simp+

lemma toy_retina_calls:
  "run toy_retina s frame =
     (if take 2 (shape frame) = take 2 (shape s) then Inr ((), frame) else Inl ''wrong frame size'')"
  "getParvo toy_retina s = Inr (s, s)"
  "getMagno toy_retina s = Inr (if ndim s = 3 then channel 0 s else s, s)"
  "clearBuffers toy_retina s = Inr ((), blank (shape s ! 0) (shape s ! 1))"
  by (simp_all add: toy_retina_def)

lemma toy_retina_grey_frame:
  assumes "ndim frame = 2" and "take 2 (shape (handle w)) = shape frame"
    and "grey2color frame = Inr colored"
  shows "get_opl_frame toy_retina frame gp gm cm w =
     (Inr (select_out gp gm (if cm = ''grey'' then colored else frame) colored),
      w\<lparr>handle := frame, calls := calls w @ [Run frame, GetParvo, GetMagno]\<rparr>)"
proof -
  have "take 2 (shape frame) = shape frame" using assms(1) by (simp add: ndim_def)
  with assms(2) have "run toy_retina (handle w) frame = Inr ((), frame)"
    by (simp add: toy_retina_calls)
  moreover have "getParvo toy_retina frame = Inr (frame, frame)"
    by (simp add: toy_retina_calls)
  moreover have "getMagno toy_retina frame = Inr (frame, frame)"
    using assms(1) by (simp add: toy_retina_calls)
  ultimately show ?thesis
    using assms(3) by (simp add: get_opl_frame_eval)
qed

lemma toy_retina_two_frames:
  assumes "take 2 (shape (handle w)) = [2, 2]"
  shows "process_in_order toy_retina cm [frame_a, frame_b] w =
     (Inr [(if cm = ''grey'' then color_a else frame_a, color_a),
           (if cm = ''grey'' then color_b else frame_b, color_b)],
      w\<lparr>handle := frame_b,
        calls := calls w @ [Run frame_a, GetParvo, GetMagno, Run frame_b, GetParvo, GetMagno]\<rparr>)"
proof -
  have a: "get_opl_frame toy_retina frame_a True True cm w =
      (Inr (FramePair (if cm = ''grey'' then color_a else frame_a) color_a),
       w\<lparr>handle := frame_a, calls := calls w @ [Run frame_a, GetParvo, GetMagno]\<rparr>)"
    using assms by (simp add: toy_retina_grey_frame sample_frames select_out_def)
  have b: "get_opl_frame toy_retina frame_b True True cm
         (w\<lparr>handle := frame_a, calls := calls w @ [Run frame_a, GetParvo, GetMagno]\<rparr>) =
      (Inr (FramePair (if cm = ''grey'' then color_b else frame_b) color_b),
       w\<lparr>handle := frame_b,
         calls := calls w @ [Run frame_a, GetParvo, GetMagno, Run frame_b, GetParvo, GetMagno]\<rparr>)"
    by (simp add: toy_retina_grey_frame sample_frames select_out_def)
  show ?thesis
    by (simp add: and_then_def a b return_val_def)
qed

lemma toy_retina_sequence:
  "get_opl_frames toy_retina (ListArg [frame_a, frame_b]) gp gm True ''grey'' closed_eye =
     (Inr (if gp then (if gm then ListPair [color_a, color_b] [color_a, color_b]
                       else OneList [color_a, color_b])
           else (if gm then OneList [color_a, color_b] else NoList)),
      \<lparr>handle = frame_b,
       calls = [ClearBuffers, Run frame_a, GetParvo, GetMagno, Run frame_b, GetParvo, GetMagno]\<rparr>)"
proof -
  let ?w0 = "\<lparr>handle = blank 2 2, calls = [ClearBuffers :: int call]\<rparr>"
  have clear: "clear_buffers toy_retina closed_eye = (Inr (), ?w0)"
    by (simp add: clear_buffers_eval toy_retina_calls closed_eye_def blank_def)
  have grey: "process_in_order toy_retina ''grey'' [frame_a, frame_b] ?w0 =
      (Inr [(color_a, color_a), (color_b, color_b)],
       \<lparr>handle = frame_b,
        calls = [ClearBuffers, Run frame_a, GetParvo, GetMagno, Run frame_b, GetParvo, GetMagno]\<rparr>)"
    using toy_retina_two_frames[of ?w0 "''grey''"]
    by (simp add: blank_def del: process_in_order.simps)
  have nonempty: "[frame_a, frame_b] \<noteq> []" by simp
  show ?thesis
    unfolding get_opl_frames_list[OF nonempty]
    by (simp add: and_then_def clear grey return_val_def del: process_in_order.simps)
qed

section \<open>The claims\<close>

text \<open>
  C1. Whenever the library's three calls go through, \<open>get_opl_frame\<close> returns exactly when
  \<open>grey2color\<close> accepts what it is given, and then the magno output is \<open>grey2color\<close> of the
  fetched magno frame (one more axis, of length 3) whatever the colour mode and the flags,
  while the parvo output is \<open>grey2color\<close> of the fetched parvo frame when the colour mode
  is \<open>"grey"\<close> and the fetched parvo frame itself for every other mode.
\<close>

theorem get_opl_frame_color_policy:
  assumes "run lib (handle w) frame = Inr ((), s1)"
    and "getParvo lib s1 = Inr (p, s2)"
    and "getMagno lib s2 = Inr (m, s3)"
  shows "get_opl_frame lib frame get_parvo get_magno color_mode w = (Inr out, w') \<longleftrightarrow>
     (\<exists>p' m'. grey2color m = Inr m' \<and> shape m' = shape m @ [3] \<and>
        (if color_mode = ''grey'' then grey2color p = Inr p' else p' = p) \<and>
        out = (if get_parvo then (if get_magno then FramePair p' m' else OneFrame p')
               else (if get_magno then OneFrame m' else NoFrame)) \<and>
        w' = w\<lparr>handle := s3, calls := calls w @ [Run frame, GetParvo, GetMagno]\<rparr>)"
  unfolding get_opl_frame_eval[OF assms] select_out_def
  by (cases "grey2color m"; cases "grey2color p")
     (auto simp add: grey2color_shape)

theorem get_opl_frame_color_policy_witness:
  "get_opl_frame toy_retina frame_a True True ''grey'' closed_eye =
     (Inr (FramePair color_a color_a),
      \<lparr>handle = frame_a, calls = [Run frame_a, GetParvo, GetMagno]\<rparr>) \<and>
   get_opl_frame toy_retina frame_a True True ''color'' closed_eye =
     (Inr (FramePair frame_a color_a),
      \<lparr>handle = frame_a, calls = [Run frame_a, GetParvo, GetMagno]\<rparr>)"
proof -
  have ran: "run toy_retina (handle closed_eye) frame_a = Inr ((), frame_a)"
    by (simp add: toy_retina_calls closed_eye_fields blank_def sample_frames)
  have parvo: "getParvo toy_retina frame_a = Inr (frame_a, frame_a)"
    and magno: "getMagno toy_retina frame_a = Inr (frame_a, frame_a)"
    by (simp_all add: toy_retina_calls sample_frames)
  have "shape color_a = shape frame_a @ [3]"
    by (simp add: color_a_def frame_a_def)
  then show ?thesis
    using get_opl_frame_color_policy[OF ran parvo magno, of True True "''grey''"]
      get_opl_frame_color_policy[OF ran parvo magno, of True True "''color''"]
    by (simp add: sample_frames(1) closed_eye_def)
qed

text \<open>
  C2. When the call does not raise, \<open>get_opl_frame\<close> returns the pair (parvo, magno) with both
  flags true, the parvo frame alone with only \<open>get_parvo\<close> true and the magno frame alone
  with only \<open>get_magno\<close> true.
\<close>

theorem get_opl_frame_return_shape:
  assumes "run lib (handle w) frame = Inr ((), s1)"
    and "getParvo lib s1 = Inr (p, s2)"
    and "getMagno lib s2 = Inr (m, s3)"
    and "(if color_mode = ''grey'' then grey2color p else Inr p) = Inr parvo_frame"
    and "grey2color m = Inr magno_frame"
  shows "fst (get_opl_frame lib frame True True color_mode w) = Inr (FramePair parvo_frame magno_frame) \<and>
         fst (get_opl_frame lib frame True False color_mode w) = Inr (OneFrame parvo_frame) \<and>
         fst (get_opl_frame lib frame False True color_mode w) = Inr (OneFrame magno_frame)"
  unfolding get_opl_frame_eval[OF assms(1-3)] select_out_def
  using assms(4,5) by simp

theorem get_opl_frame_return_shape_witness:
  "fst (get_opl_frame toy_retina frame_a True True ''color'' closed_eye) =
     Inr (FramePair frame_a color_a) \<and>
   fst (get_opl_frame toy_retina frame_a True False ''color'' closed_eye) = Inr (OneFrame frame_a) \<and>
   fst (get_opl_frame toy_retina frame_a False True ''color'' closed_eye) = Inr (OneFrame color_a)"
proof -
  have ran: "run toy_retina (handle closed_eye) frame_a = Inr ((), frame_a)"
    by (simp add: toy_retina_calls closed_eye_fields blank_def sample_frames)
  have parvo: "getParvo toy_retina frame_a = Inr (frame_a, frame_a)"
    and magno: "getMagno toy_retina frame_a = Inr (frame_a, frame_a)"
    by (simp_all add: toy_retina_calls sample_frames)
  have asis: "(if ''color'' = ''grey'' then grey2color frame_a else Inr frame_a) = Inr frame_a"
    by simp
  show ?thesis
    by (rule get_opl_frame_return_shape[OF ran parvo magno asis sample_frames(1)])
qed

text \<open>
  C3. For every 2-dimensional array \<open>g\<close> of shape \<open>(H, W)\<close>, \<open>grey2color g\<close> returns an array of
  shape \<open>(H, W, 3)\<close> in which each of the three channels is an exact copy of \<open>g\<close>:
  extracting any channel of the result gives \<open>g\<close> back, and every pixel of every channel
  is the pixel of \<open>g\<close> at that place. The function takes and returns values only; it has no
  access to the retina object or to the list of library calls, and \<open>g\<close> is the same array
  after the call.
\<close>

theorem grey2color_duplicates:
  assumes "wf_ndarray g" and "shape g = [H, W]"
  shows "\<exists>r. grey2color g = Inr r \<and> shape r = [H, W, 3] \<and> wf_ndarray r \<and>
           (\<forall>k<3. channel k r = g) \<and>
           (\<forall>i<H. \<forall>j<W. \<forall>k<3. at3 r i j k = at2 g i j)"
proof -
  define r where "r = \<lparr>shape = [H, W, 3],
      elems = map (\<lambda>n. (elems g @ elems g @ elems g) ! ((n mod 3) * (H * W) + n div 3))
                  [0..<H * W * 3]\<rparr>"
  have len: "length (elems g) = H * W"
    using assms by (simp add: wf_ndarray_def)
  have res: "grey2color g = Inr r"
    unfolding r_def by (rule grey2color_2d) (rule assms(2))
  have sh: "shape r = [H, W, 3]" and wf: "wf_ndarray r"
    by (simp_all add: r_def wf_ndarray_def)
  have at: "elems r ! (n * 3 + k) = elems g ! n" if "n < H * W" "k < 3" for n k
  proof -
    have "n * 3 + k < H * W * 3" using that by simp
    then have "elems r ! (n * 3 + k) =
        (elems g @ elems g @ elems g) ! (((n * 3 + k) mod 3) * (H * W) + (n * 3 + k) div 3)"
      by (simp add: r_def)
    also have "\<dots> = (elems g @ elems g @ elems g) ! (k * (H * W) + n)"
      by (simp only: channel_index[OF that(2)])
    also have "\<dots> = elems g ! n"
      by (rule triple_nth[OF len that(2) that(1)])
    finally show ?thesis .
  qed
  have chan: "channel k r = g" if "k < 3" for k
  proof -
    have "map (\<lambda>n. elems r ! (n * 3 + k)) [0..<H * W] = map (\<lambda>n. elems g ! n) [0..<H * W]"
      by (rule map_cong) (simp_all add: at that)
    also have "\<dots> = elems g"
      using map_nth[of "elems g"] by (simp only: len)
    finally have "elems (channel k r) = elems g"
      by (simp add: channel_def sh)
    moreover have "shape (channel k r) = shape g"
      by (simp add: channel_def sh assms(2))
    ultimately show ?thesis by simp
  qed
  have pix: "at3 r i j k = at2 g i j" if "i < H" "j < W" "k < 3" for i j k
    using at[OF position_bound(2)[OF that] that(3)]
    by (simp add: at3_def at2_def sh assms(2))
  from res sh wf chan pix show ?thesis by blast
qed

theorem grey2color_duplicates_witness:
  "\<exists>r. grey2color \<lparr>shape = [2, 2], elems = [1, 2, 3, 4 :: int]\<rparr> = Inr r \<and>
       shape r = [2, 2, 3] \<and> wf_ndarray r \<and>
       (\<forall>k<3. channel k r = \<lparr>shape = [2, 2], elems = [1, 2, 3, 4]\<rparr>) \<and>
       (\<forall>i<2. \<forall>j<2. \<forall>k<3. at3 r i j k = at2 \<lparr>shape = [2, 2], elems = [1, 2, 3, 4]\<rparr> i j)"
  by (rule grey2color_duplicates) (simp_all add: wf_ndarray_def)

text \<open>
  C4. On a non-empty list of frames \<open>get_opl_frames\<close> returns exactly when clearing the
  buffers (if asked for) and processing the frames in input order, each by
  \<open>get_opl_frame\<close> on the state the one before left, all go through. The library then saw
  \<open>run\<close>, \<open>getParvo\<close>, \<open>getMagno\<close> for each frame in input order, there is one result per
  frame, and the value returned is the pair of the parvo list and the magno list with
  both flags true and the one list asked for with one flag true, in input order.
\<close>

theorem get_opl_frames_in_order:
  assumes "fs \<noteq> []"
  shows "get_opl_frames lib (ListArg fs) get_parvo get_magno reopen_eye color_mode w = (Inr r, w') \<longleftrightarrow>
     (\<exists>w0 outs.
        (if reopen_eye then clear_buffers lib else return_val ()) w = (Inr (), w0) \<and>
        process_in_order lib color_mode fs w0 = (Inr outs, w') \<and>
        length outs = length fs \<and>
        calls w' = calls w0 @ concat (map (\<lambda>f. [Run f, GetParvo, GetMagno]) fs) \<and>
        r = (if get_parvo
             then (if get_magno then ListPair (map fst outs) (map snd outs)
                   else OneList (map fst outs))
             else (if get_magno then OneList (map snd outs) else NoList)))"
  (is "?lhs \<longleftrightarrow> ?rhs")
proof
  assume ?lhs
  then obtain w0 where clear: "(if reopen_eye then clear_buffers lib else return_val ()) w = (Inr (), w0)"
    and rest: "and_then (process_in_order lib color_mode fs) (\<lambda>outs. return_val
       (if get_parvo
        then (if get_magno then ListPair (map fst outs) (map snd outs) else OneList (map fst outs))
        else (if get_magno then OneList (map snd outs) else NoList))) w0 = (Inr r, w')"
    unfolding get_opl_frames_list[OF assms]
    by (cases "(if reopen_eye then clear_buffers lib else return_val ()) w";
        cases "fst ((if reopen_eye then clear_buffers lib else return_val ()) w)")
       (auto simp add: and_then_def)
  from rest obtain outs where outs: "process_in_order lib color_mode fs w0 = (Inr outs, w')"
    and r: "r = (if get_parvo
        then (if get_magno then ListPair (map fst outs) (map snd outs) else OneList (map fst outs))
        else (if get_magno then OneList (map snd outs) else NoList))"
    unfolding and_then_return_eq by blast
  from clear outs r process_in_order_length[OF outs] process_calls_ok[OF outs]
  show ?rhs by blast
next
  assume ?rhs
  then show ?lhs
    unfolding get_opl_frames_list[OF assms]
    by (auto simp add: and_then_def return_val_def)
qed

theorem get_opl_frames_in_order_witness:
  "get_opl_frames toy_retina (ListArg [frame_a, frame_b]) True True True ''grey'' closed_eye =
     (Inr (ListPair [color_a, color_b] [color_a, color_b]),
      \<lparr>handle = frame_b,
       calls = [ClearBuffers, Run frame_a, GetParvo, GetMagno, Run frame_b, GetParvo, GetMagno]\<rparr>)
   \<and> get_opl_frames toy_retina (ListArg [frame_a, frame_b]) True False False ''color'' closed_eye =
     (Inr (OneList [frame_a, frame_b]),
      \<lparr>handle = frame_b,
       calls = [Run frame_a, GetParvo, GetMagno, Run frame_b, GetParvo, GetMagno]\<rparr>)"
proof -
  let ?w0 = "\<lparr>handle = blank 2 2, calls = [ClearBuffers :: int call]\<rparr>"
  have clear: "clear_buffers toy_retina closed_eye = (Inr (), ?w0)"
    by (simp add: clear_buffers_eval toy_retina_calls closed_eye_def blank_def)
  have grey: "process_in_order toy_retina ''grey'' [frame_a, frame_b] ?w0 =
      (Inr [(color_a, color_a), (color_b, color_b)],
       \<lparr>handle = frame_b,
        calls = [ClearBuffers, Run frame_a, GetParvo, GetMagno, Run frame_b, GetParvo, GetMagno]\<rparr>)"
    using toy_retina_two_frames[of ?w0 "''grey''"]
    by (simp add: blank_def del: process_in_order.simps)
  have color: "process_in_order toy_retina ''color'' [frame_a, frame_b] closed_eye =
      (Inr [(frame_a, color_a), (frame_b, color_b)],
       \<lparr>handle = frame_b,
        calls = [Run frame_a, GetParvo, GetMagno, Run frame_b, GetParvo, GetMagno]\<rparr>)"
    using toy_retina_two_frames[of closed_eye "''color''"]
    by (simp add: blank_def closed_eye_def del: process_in_order.simps)
  have nonempty: "[frame_a, frame_b] \<noteq> []" by simp
  have "get_opl_frames toy_retina (ListArg [frame_a, frame_b]) True True True ''grey'' closed_eye =
     (Inr (ListPair [color_a, color_b] [color_a, color_b]),
      \<lparr>handle = frame_b,
       calls = [ClearBuffers, Run frame_a, GetParvo, GetMagno, Run frame_b, GetParvo, GetMagno]\<rparr>)"
    unfolding get_opl_frames_in_order[OF nonempty]
    by (intro exI[of _ ?w0] exI[of _ "[(color_a, color_a), (color_b, color_b)]"])
       (simp add: clear grey del: process_in_order.simps)
  moreover
  have "get_opl_frames toy_retina (ListArg [frame_a, frame_b]) True False False ''color'' closed_eye =
     (Inr (OneList [frame_a, frame_b]),
      \<lparr>handle = frame_b,
       calls = [Run frame_a, GetParvo, GetMagno, Run frame_b, GetParvo, GetMagno]\<rparr>)"
    unfolding get_opl_frames_in_order[OF nonempty]
    by (intro exI[of _ closed_eye] exI[of _ "[(frame_a, color_a), (frame_b, color_b)]"])
       (simp add: color return_val_def closed_eye_fields del: process_in_order.simps)
  ultimately show ?thesis by simp
qed

text \<open>
  C5. On a non-empty list of frames with \<open>reopen_eye\<close> true, the calls \<open>get_opl_frames\<close> makes
  begin with \<open>clearBuffers\<close> and hold no second one, whether or not a later call raises.
  If \<open>clearBuffers\<close> raises on the retina's state, the function raises that error with the
  state untouched. If it returns the state \<open>s'\<close>, the next call feeds the first frame, and
  the function is the in-order processing of the frames started on \<open>s'\<close>: its result and
  the world it leaves are those of \<open>process_in_order\<close> from the retina in state \<open>s'\<close>.
  If the function returns, the calls after the clearing are \<open>run\<close>, \<open>getParvo\<close>, \<open>getMagno\<close>
  for each frame in order.
\<close>

theorem reopen_eye_clears_once:
  assumes "fs \<noteq> []"
  shows "\<exists>new. calls (snd (get_opl_frames lib (ListArg fs) gp gm True cm w)) =
                 calls w @ ClearBuffers # new \<and>
           ClearBuffers \<notin> set new \<and>
           (\<forall>msg. clearBuffers lib (handle w) = Inl msg \<longrightarrow>
              get_opl_frames lib (ListArg fs) gp gm True cm w =
                (Inl (Cv2Error msg), w\<lparr>calls := calls w @ [ClearBuffers]\<rparr>)) \<and>
           (\<forall>s'. clearBuffers lib (handle w) = Inr ((), s') \<longrightarrow>
              (\<exists>new'. new = Run (hd fs) # new') \<and>
              snd (get_opl_frames lib (ListArg fs) gp gm True cm w) =
                snd (process_in_order lib cm fs
                       (w\<lparr>handle := s', calls := calls w @ [ClearBuffers]\<rparr>)) \<and>
              get_opl_frames lib (ListArg fs) gp gm True cm w =
                and_then (process_in_order lib cm fs) (\<lambda>outs. return_val
                  (if gp then (if gm then ListPair (map fst outs) (map snd outs)
                               else OneList (map fst outs))
                   else (if gm then OneList (map snd outs) else NoList)))
                  (w\<lparr>handle := s', calls := calls w @ [ClearBuffers]\<rparr>)) \<and>
           (\<forall>r. fst (get_opl_frames lib (ListArg fs) gp gm True cm w) = Inr r \<longrightarrow>
                new = concat (map (\<lambda>f. [Run f, GetParvo, GetMagno]) fs))"
proof (cases "clearBuffers lib (handle w)")
  case (Inl msg)
  then have "get_opl_frames lib (ListArg fs) gp gm True cm w =
      (Inl (Cv2Error msg), w\<lparr>calls := calls w @ [ClearBuffers]\<rparr>)"
    unfolding get_opl_frames_list[OF assms] by (simp add: and_then_def clear_buffers_eval)
  with Inl show ?thesis by simp
next
  case (Inr us)
  then obtain s' where cleared: "clearBuffers lib (handle w) = Inr ((), s')"
    by (cases us) simp
  define w0 where "w0 = w\<lparr>handle := s', calls := calls w @ [ClearBuffers]\<rparr>"
  let ?pick = "\<lambda>outs. if gp then (if gm then ListPair (map fst outs) (map snd outs)
                                   else OneList (map fst outs))
                       else (if gm then OneList (map snd outs) else NoList)"
  have seq: "get_opl_frames lib (ListArg fs) gp gm True cm w =
      and_then (process_in_order lib cm fs) (\<lambda>outs. return_val (?pick outs)) w0"
    unfolding get_opl_frames_list[OF assms] w0_def
    by (simp add: and_then_def clear_buffers_eval cleared)
  have after: "snd (get_opl_frames lib (ListArg fs) gp gm True cm w) =
      snd (process_in_order lib cm fs w0)"
    unfolding seq by (rule and_then_return_snd)
  obtain new where new: "calls (snd (process_in_order lib cm fs w0)) = calls w0 @ new"
      "ClearBuffers \<notin> set new" "\<exists>new'. new = Run (hd fs) # new'"
    using process_calls[of lib cm fs w0] assms by blast
  have trace: "calls (snd (get_opl_frames lib (ListArg fs) gp gm True cm w)) =
      calls w @ ClearBuffers # new"
    unfolding after new(1) by (simp add: w0_def)
  have complete: "new = concat (map (\<lambda>f. [Run f, GetParvo, GetMagno]) fs)"
    if "fst (get_opl_frames lib (ListArg fs) gp gm True cm w) = Inr r" for r
  proof -
    from that obtain outs where "fst (process_in_order lib cm fs w0) = Inr outs"
      unfolding seq and_then_return_fst by blast
    then have "process_in_order lib cm fs w0 = (Inr outs, snd (process_in_order lib cm fs w0))"
      by (simp add: prod_eq_iff)
    from process_calls_ok[OF this] new(1) show ?thesis by simp
  qed
  have cleared_world: "(\<exists>new'. new = Run (hd fs) # new') \<and>
      snd (get_opl_frames lib (ListArg fs) gp gm True cm w) =
        snd (process_in_order lib cm fs (w\<lparr>handle := s'', calls := calls w @ [ClearBuffers]\<rparr>)) \<and>
      get_opl_frames lib (ListArg fs) gp gm True cm w =
        and_then (process_in_order lib cm fs) (\<lambda>outs. return_val (?pick outs))
          (w\<lparr>handle := s'', calls := calls w @ [ClearBuffers]\<rparr>)"
    if "clearBuffers lib (handle w) = Inr ((), s'')" for s''
  proof -
    from that cleared have "s'' = s'" by simp
    with new(3) after seq show ?thesis by (simp add: w0_def)
  qed
  have failed: "get_opl_frames lib (ListArg fs) gp gm True cm w =
      (Inl (Cv2Error msg), w\<lparr>calls := calls w @ [ClearBuffers]\<rparr>)"
    if "clearBuffers lib (handle w) = Inl msg" for msg
    using that cleared by simp
  from trace new(2) failed cleared_world complete show ?thesis by blast
qed

theorem reopen_eye_clears_once_witness:
  "snd (get_opl_frames toy_retina (ListArg [frame_a, frame_b]) True True True ''grey''
          \<lparr>handle = frame_a, calls = []\<rparr>) =
     snd (process_in_order toy_retina ''grey'' [frame_a, frame_b]
            \<lparr>handle = blank 2 2, calls = [ClearBuffers]\<rparr>) \<and>
   snd (get_opl_frames toy_retina (ListArg [frame_a, frame_b]) True True True ''grey''
          \<lparr>handle = frame_a, calls = []\<rparr>) =
     \<lparr>handle = frame_b,
      calls = [ClearBuffers, Run frame_a, GetParvo, GetMagno, Run frame_b, GetParvo, GetMagno]\<rparr> \<and>
   count_list (calls (snd (get_opl_frames toy_retina (ListArg [frame_a, frame_b]) True True True
                             ''grey'' \<lparr>handle = frame_a, calls = []\<rparr>))) ClearBuffers = 1"
proof -
  let ?seen = "\<lparr>handle = frame_a, calls = [] :: int call list\<rparr>"
  let ?opened = "\<lparr>handle = blank 2 2, calls = [ClearBuffers :: int call]\<rparr>"
  have nonempty: "[frame_a, frame_b] \<noteq> []" by simp
  have cleared: "clearBuffers toy_retina (handle ?seen) = Inr ((), blank 2 2)"
    by (simp add: toy_retina_calls sample_frames)
  have cleared_world: "?seen\<lparr>handle := blank 2 2, calls := calls ?seen @ [ClearBuffers]\<rparr> = ?opened"
    by simp
  have run: "process_in_order toy_retina ''grey'' [frame_a, frame_b] ?opened =
      (Inr [(color_a, color_a), (color_b, color_b)],
       \<lparr>handle = frame_b,
        calls = [ClearBuffers, Run frame_a, GetParvo, GetMagno, Run frame_b, GetParvo, GetMagno]\<rparr>)"
    using toy_retina_two_frames[of ?opened "''grey''"]
    by (simp add: blank_def del: process_in_order.simps)
  from reopen_eye_clears_once[OF nonempty, of toy_retina True True "''grey''" ?seen]
  obtain new where new:
    "\<forall>s'. clearBuffers toy_retina (handle ?seen) = Inr ((), s') \<longrightarrow>
       (\<exists>new'. new = Run (hd [frame_a, frame_b]) # new') \<and>
       snd (get_opl_frames toy_retina (ListArg [frame_a, frame_b]) True True True ''grey'' ?seen) =
         snd (process_in_order toy_retina ''grey'' [frame_a, frame_b]
                (?seen\<lparr>handle := s', calls := calls ?seen @ [ClearBuffers]\<rparr>)) \<and>
       get_opl_frames toy_retina (ListArg [frame_a, frame_b]) True True True ''grey'' ?seen =
         and_then (process_in_order toy_retina ''grey'' [frame_a, frame_b]) (\<lambda>outs. return_val
           (if True then (if True then ListPair (map fst outs) (map snd outs)
                          else OneList (map fst outs))
            else (if True then OneList (map snd outs) else NoList)))
           (?seen\<lparr>handle := s', calls := calls ?seen @ [ClearBuffers]\<rparr>)"
    by (elim exE conjE) (rule that; assumption)
  from new[rule_format, OF cleared]
  have "snd (get_opl_frames toy_retina (ListArg [frame_a, frame_b]) True True True ''grey'' ?seen) =
         snd (process_in_order toy_retina ''grey'' [frame_a, frame_b] ?opened)"
    unfolding cleared_world by (rule conjunct1[OF conjunct2])
  then show ?thesis
    by (simp add: run del: process_in_order.simps)
qed

text \<open>
  C6. On a size tuple \<open>(h, w)\<close>, \<open>init_retina\<close> calls the library's constructor once, with
  \<open>(w, h)\<close>, and returns the retina the constructor hands back.
\<close>

theorem init_retina_reversed:
  "snd (init_retina lib [h, w] made) = made @ [CreateRetina (w, h)] \<and>
   (\<forall>retina. createRetina lib (w, h) = Inr retina \<longrightarrow>
      fst (init_retina lib [h, w] made) = Inr retina)"
  by (simp add: init_retina_def)

theorem init_retina_reversed_witness:
  "init_retina toy_retina [4, 6] [] = (Inr (blank 4 6), [CreateRetina (6, 4)])"
proof -
  have "createRetina toy_retina (6, 4) = Inr (blank 4 6)"
    by (simp add: toy_retina_def)
  with init_retina_reversed[of toy_retina 4 6 "[]"] show ?thesis
    by (simp add: prod_eq_iff)
qed

text \<open>
  C7. \<open>init_retina\<close> raises ValueError exactly when the size tuple does not have two
  elements, and then makes no call to the library; with two elements it calls the
  constructor.
\<close>

theorem init_retina_size_check:
  "(length size_tuple \<noteq> 2 \<longrightarrow>
      init_retina lib size_tuple made = (Inl (ValueError ''Invalid size setting.''), made)) \<and>
   (length size_tuple = 2 \<longrightarrow>
      (\<forall>msg. fst (init_retina lib size_tuple made) \<noteq> Inl (ValueError msg)) \<and>
      snd (init_retina lib size_tuple made) =
        made @ [CreateRetina (size_tuple ! 1, size_tuple ! 0)])"
  by (simp add: init_retina_def split: sum.splits)

theorem init_retina_size_check_witness:
  "init_retina toy_retina [5] [] = (Inl (ValueError ''Invalid size setting.''), []) \<and>
   init_retina toy_retina [5, 5, 5] [] = (Inl (ValueError ''Invalid size setting.''), []) \<and>
   (\<forall>msg. fst (init_retina toy_retina [5, 5] []) \<noteq> Inl (ValueError msg)) \<and>
   snd (init_retina toy_retina [5, 5] []) = [CreateRetina (5, 5)]"
  using init_retina_size_check[of "[5]" toy_retina "[]"]
    init_retina_size_check[of "[5, 5, 5]" toy_retina "[]"]
    init_retina_size_check[of "[5, 5]" toy_retina "[]"]
  by simp

text \<open>
  C8. \<open>grey2color\<close> raises ValueError exactly when its input does not have two dimensions,
  and then returns no array; on a 2-dimensional input it returns one.
\<close>

theorem grey2color_rank_check:
  "(ndim frame \<noteq> 2 \<longrightarrow> grey2color frame = Inl (ValueError ''Input frame is not a grey frame.''))
   \<and> (ndim frame = 2 \<longrightarrow> (\<exists>r. grey2color frame = Inr r))"
proof (intro conjI impI)
  assume "ndim frame \<noteq> 2"
  then show "grey2color frame = Inl (ValueError ''Input frame is not a grey frame.'')"
    by (simp add: grey2color_def)
next
  assume "ndim frame = 2"
  then obtain h w where "shape frame = [h, w]" using ndim_2_shape by blast
  then show "\<exists>r. grey2color frame = Inr r" by (simp add: grey2color_2d)
qed

theorem grey2color_rank_check_witness:
  "grey2color \<lparr>shape = [2, 1, 3], elems = [1, 1, 1, 2, 2, 2 :: int]\<rparr> =
     Inl (ValueError ''Input frame is not a grey frame.'')
   \<and> grey2color \<lparr>shape = [2], elems = [1, 2 :: int]\<rparr> =
     Inl (ValueError ''Input frame is not a grey frame.'')
   \<and> (\<exists>r. grey2color \<lparr>shape = [2, 1], elems = [1, 2 :: int]\<rparr> = Inr r)"
  using grey2color_rank_check[of "\<lparr>shape = [2, 1, 3], elems = [1, 1, 1, 2, 2, 2 :: int]\<rparr>"]
    grey2color_rank_check[of "\<lparr>shape = [2], elems = [1, 2 :: int]\<rparr>"]
    grey2color_rank_check[of "\<lparr>shape = [2, 1], elems = [1, 2 :: int]\<rparr>"]
  by (simp add: ndim_def)

text \<open>
  C9. An argument without a length (\<^verbatim>\<open>None\<close>, a generator) is not a list, yet
  \<open>get_opl_frames\<close> does not raise its ValueError on it: \<^verbatim>\<open>len(frames)\<close> is evaluated
  before \<^verbatim>\<open>isinstance\<close> and raises TypeError. No call reaches the library. (An empty list
  and a non-list that has a length are rejected with ValueError, lemma
  \<open>get_opl_frames_rejects\<close>.)
\<close>

theorem get_opl_frames_unsized:
  "get_opl_frames lib UnsizedArg gp gm reopen cm w = (Inl (TypeError ''object has no len()''), w)"
  by (simp add: get_opl_frames_def py_len_def and_then_pure raise_def)

text \<open>
  C10. With both flags false \<open>get_opl_frame\<close> still calls \<open>run\<close> on the frame, returns nothing
  but \<^verbatim>\<open>None\<close>, and does return it, with the retina's state changed, when the library's
  calls go through and \<open>grey2color\<close> accepts its inputs; \<open>get_opl_frames\<close> on a non-empty
  list then returns exactly when every frame went through the retina in order, and what
  it returns is \<^verbatim>\<open>None\<close>.
\<close>

theorem no_flags_returns_none:
  "(\<exists>new. calls (snd (get_opl_frame lib frame False False color_mode w)) =
            calls w @ Run frame # new) \<and>
   (\<forall>out w'. get_opl_frame lib frame False False color_mode w = (Inr out, w') \<longrightarrow> out = NoFrame) \<and>
   (\<forall>s1 p s2 m s3.
      run lib (handle w) frame = Inr ((), s1) \<and> getParvo lib s1 = Inr (p, s2) \<and>
      getMagno lib s2 = Inr (m, s3) \<and> (color_mode = ''grey'' \<longrightarrow> ndim p = 2) \<and> ndim m = 2 \<longrightarrow>
      get_opl_frame lib frame False False color_mode w =
        (Inr NoFrame, w\<lparr>handle := s3, calls := calls w @ [Run frame, GetParvo, GetMagno]\<rparr>)) \<and>
   (fs \<noteq> [] \<longrightarrow>
      (get_opl_frames lib (ListArg fs) False False reopen_eye color_mode w = (Inr r, w') \<longleftrightarrow>
         r = NoList \<and>
         (\<exists>w0 outs.
            (if reopen_eye then clear_buffers lib else return_val ()) w = (Inr (), w0) \<and>
            process_in_order lib color_mode fs w0 = (Inr outs, w') \<and>
            calls w' = calls w0 @ concat (map (\<lambda>f. [Run f, GetParvo, GetMagno]) fs))))"
proof (intro conjI allI impI)
  obtain new where "calls (snd (fetch_frames lib frame color_mode w)) = calls w @ Run frame # new"
    using fetch_frames_calls by blast
  then show "\<exists>new. calls (snd (get_opl_frame lib frame False False color_mode w)) =
                   calls w @ Run frame # new"
    by (cases rule: fetch_frames_cases[of lib frame color_mode w])
       (auto simp add: get_opl_frame_raises get_opl_frame_returns)
next
  fix out w'
  assume "get_opl_frame lib frame False False color_mode w = (Inr out, w')"
  then show "out = NoFrame"
    by (cases rule: fetch_frames_cases[of lib frame color_mode w])
       (auto simp add: get_opl_frame_raises get_opl_frame_returns select_out_def)
next
  fix s1 p s2 m s3
  assume ok: "run lib (handle w) frame = Inr ((), s1) \<and> getParvo lib s1 = Inr (p, s2) \<and>
      getMagno lib s2 = Inr (m, s3) \<and> (color_mode = ''grey'' \<longrightarrow> ndim p = 2) \<and> ndim m = 2"
  then obtain m' where m': "grey2color m = Inr m'"
    using ndim_2_shape[of m] grey2color_2d[of m] by auto
  have "\<exists>p'. (if color_mode = ''grey'' then grey2color p else Inr p) = Inr p'"
    using ok ndim_2_shape[of p] grey2color_2d[of p] by auto
  then obtain p' where p': "(if color_mode = ''grey'' then grey2color p else Inr p) = Inr p'"
    by blast
  from ok have lib: "run lib (handle w) frame = Inr ((), s1)" "getParvo lib s1 = Inr (p, s2)"
      "getMagno lib s2 = Inr (m, s3)"
    by simp_all
  show "get_opl_frame lib frame False False color_mode w =
        (Inr NoFrame, w\<lparr>handle := s3, calls := calls w @ [Run frame, GetParvo, GetMagno]\<rparr>)"
    unfolding get_opl_frame_eval[OF lib] p' m' by (simp add: select_out_def)
next
  assume nonempty: "fs \<noteq> []"
  show "get_opl_frames lib (ListArg fs) False False reopen_eye color_mode w = (Inr r, w') \<longleftrightarrow>
         r = NoList \<and>
         (\<exists>w0 outs.
            (if reopen_eye then clear_buffers lib else return_val ()) w = (Inr (), w0) \<and>
            process_in_order lib color_mode fs w0 = (Inr outs, w') \<and>
            calls w' = calls w0 @ concat (map (\<lambda>f. [Run f, GetParvo, GetMagno]) fs))"
    (is "?lhs \<longleftrightarrow> ?rhs")
  proof
    assume ?lhs
    then obtain w0 where clear:
        "(if reopen_eye then clear_buffers lib else return_val ()) w = (Inr (), w0)"
      and rest: "and_then (process_in_order lib color_mode fs) (\<lambda>outs. return_val NoList) w0 =
                   (Inr r, w')"
      unfolding get_opl_frames_list[OF nonempty]
      by (cases "(if reopen_eye then clear_buffers lib else return_val ()) w";
          cases "fst ((if reopen_eye then clear_buffers lib else return_val ()) w)")
         (auto simp add: and_then_def)
    from rest obtain outs where outs: "process_in_order lib color_mode fs w0 = (Inr outs, w')"
      and r: "r = NoList"
      unfolding and_then_return_eq by blast
    from clear outs r process_calls_ok[OF outs] show ?rhs by blast
  next
    assume ?rhs
    then show ?lhs
      unfolding get_opl_frames_list[OF nonempty]
      by (auto simp add: and_then_def return_val_def)
  qed
qed

theorem no_flags_returns_none_witness:
  "get_opl_frame toy_retina frame_a False False ''grey'' closed_eye =
     (Inr NoFrame, \<lparr>handle = frame_a, calls = [Run frame_a, GetParvo, GetMagno]\<rparr>) \<and>
   get_opl_frames toy_retina (ListArg [frame_a, frame_b]) False False True ''grey'' closed_eye =
     (Inr NoList,
      \<lparr>handle = frame_b,
       calls = [ClearBuffers, Run frame_a, GetParvo, GetMagno, Run frame_b, GetParvo, GetMagno]\<rparr>)"
proof -
  let ?w0 = "\<lparr>handle = blank 2 2, calls = [ClearBuffers :: int call]\<rparr>"
  let ?w2 = "\<lparr>handle = frame_b,
       calls = [ClearBuffers, Run frame_a, GetParvo, GetMagno, Run frame_b, GetParvo, GetMagno]\<rparr>"
  note inst = no_flags_returns_none[of toy_retina frame_a "''grey''" closed_eye
      "[frame_a, frame_b]" True NoList ?w2]
  have ran: "run toy_retina (handle closed_eye) frame_a = Inr ((), frame_a)"
    by (simp add: toy_retina_calls closed_eye_fields blank_def sample_frames)
  have parvo: "getParvo toy_retina frame_a = Inr (frame_a, frame_a)"
    and magno: "getMagno toy_retina frame_a = Inr (frame_a, frame_a)"
    by (simp_all add: toy_retina_calls sample_frames)
  have one: "get_opl_frame toy_retina frame_a False False ''grey'' closed_eye =
     (Inr NoFrame, \<lparr>handle = frame_a, calls = [Run frame_a, GetParvo, GetMagno]\<rparr>)"
    using inst[THEN conjunct2, THEN conjunct2, THEN conjunct1, rule_format,
        of frame_a frame_a frame_a frame_a frame_a] ran parvo magno
    by (simp add: sample_frames closed_eye_def)
  have clear: "clear_buffers toy_retina closed_eye = (Inr (), ?w0)"
    by (simp add: clear_buffers_eval toy_retina_calls closed_eye_def blank_def)
  have grey: "process_in_order toy_retina ''grey'' [frame_a, frame_b] ?w0 =
      (Inr [(color_a, color_a), (color_b, color_b)], ?w2)"
    using toy_retina_two_frames[of ?w0 "''grey''"]
    by (simp add: blank_def del: process_in_order.simps)
  have "\<exists>w0 outs.
      (if True then clear_buffers toy_retina else return_val ()) closed_eye = (Inr (), w0) \<and>
      process_in_order toy_retina ''grey'' [frame_a, frame_b] w0 = (Inr outs, ?w2) \<and>
      calls ?w2 = calls w0 @ concat (map (\<lambda>f. [Run f, GetParvo, GetMagno]) [frame_a, frame_b])"
    by (intro exI[of _ ?w0] exI[of _ "[(color_a, color_a), (color_b, color_b)]"])
       (simp add: clear grey del: process_in_order.simps)
  with inst[THEN conjunct2, THEN conjunct2, THEN conjunct2]
  have "get_opl_frames toy_retina (ListArg [frame_a, frame_b]) False False True ''grey'' closed_eye =
     (Inr NoList, ?w2)"
    by simp
  with one show ?thesis by simp
qed

end
